theory Spec2Isabelle
  imports Main "HOL-Library.Word"
begin

section \<open>Data model of wkhtmltoimage.go\<close>

text \<open>
  Bytes are 8-bit words, Go strings are byte strings (\<open>string\<close>), Go's \<open>int\<close> is the
  64-bit machine integer read as two's complement, and an \<open>error\<close> value is the text
  it carries (\<open>errors.New\<close>, \<open>fmt.Errorf\<close>). A Go pair \<open>(value, error)\<close> is a pair
  whose second component is \<open>None\<close> for a nil error. A nil slice and an empty slice are
  both the empty list.
\<close>

type_synonym byte = "8 word"
type_synonym error = string

record ImageOptions =
  BinaryPath :: string
  Input :: string
  Format :: string
  Height :: "64 word"
  Width :: "64 word"
  Quality :: "64 word"
  Html :: string
  Output :: string

section \<open>strconv: base-10 rendering and parsing\<close>

text \<open>
  \<open>strconv.Itoa\<close> and \<open>strconv.Atoi\<close> are library functions of Go. \<open>Itoa\<close> writes a
  minus sign and the decimal digits of the magnitude, most significant first, with no
  leading zero. \<open>Atoi\<close> accepts one optional sign and a non-empty run of decimal digits,
  and rejects a value outside the range of \<open>int\<close>.
\<close>

definition digit_char :: "nat \<Rightarrow> char" where
  "digit_char d = ''0123456789'' ! d"

definition digit_val :: "char \<Rightarrow> nat option" where
  "digit_val c =
     (let n = (of_char c :: nat) in if 48 \<le> n \<and> n \<le> 57 then Some (n - 48) else None)"

function formatUint :: "nat \<Rightarrow> string" where
  "formatUint n = (if n < 10 then [digit_char n] else formatUint (n div 10) @ [digit_char (n mod 10)])"
  by pat_completeness auto
termination
  by (relation "measure id") auto

declare formatUint.simps [simp del]

definition formatInt :: "int \<Rightarrow> string" where
  "formatInt i = (if i < 0 then CHR ''-'' # formatUint (nat (- i)) else formatUint (nat i))"

definition Itoa :: "64 word \<Rightarrow> string" where
  "Itoa i = formatInt (sint i)"

fun parseUint :: "nat \<Rightarrow> string \<Rightarrow> nat option" where
  "parseUint acc [] = Some acc"
| "parseUint acc (c # cs) =
     (case digit_val c of None \<Rightarrow> None | Some d \<Rightarrow> parseUint (acc * 10 + d) cs)"

definition Atoi :: "string \<Rightarrow> int option" where
  "Atoi s =
     (case s of
        [] \<Rightarrow> None
      | c # r \<Rightarrow>
          let neg = (c = CHR ''-'');
              ds = (if c = CHR ''-'' \<or> c = CHR ''+'' then r else s)
          in if ds = [] then None
             else (case parseUint 0 ds of
                     None \<Rightarrow> None
                   | Some n \<Rightarrow>
                       let v = (if neg then - int n else int n)
                       in if - (2 ^ 63) \<le> v \<and> v < 2 ^ 63 then Some v else None))"

section \<open>The option translator\<close>

text \<open>
  \<open>buildParams\<close> takes a pointer to the options and clears \<open>Html\<close> through it, so the
  model returns the options as they are after the call, beside the Go result pair.
  Each \<open>append\<close> of the source is one \<open>@\<close>.
\<close>

definition buildParams :: "ImageOptions \<Rightarrow> (string list \<times> error option) \<times> ImageOptions" where
  "buildParams options =
     (if Input options = '''' then (([], Some ''Must provide input''), options)
      else
        let a = [];
            a = a @ [''-q''];
            a = a @ [''--disable-plugins''];
            a = a @ [''--format''];
            a = (if Format options \<noteq> '''' then a @ [Format options] else a @ [''png'']);
            a = (if Height options \<noteq> 0 then (a @ [''--height'']) @ [Itoa (Height options)] else a);
            a = (if Width options \<noteq> 0 then (a @ [''--width'']) @ [Itoa (Width options)] else a);
            a = (if Quality options \<noteq> 0 then (a @ [''--quality'']) @ [Itoa (Quality options)] else a);
            options = (if Input options \<noteq> ''-'' then options\<lparr>Html := ''''\<rparr> else options);
            a = a @ [Input options];
            a = (if Output options = '''' then a @ [''-''] else a @ [Output options])
        in ((a, None), options))"

section \<open>Output repair\<close>

text \<open>
  \<open>png.Decode\<close>, \<open>jpeg.Decode\<close>, \<open>png.Encode\<close> and \<open>jpeg.Encode\<close> belong to Go's
  standard library and are parameters here. A decoder returns an image or an error, and
  with an error the image it returns is nil. An encoder is given the image and yields the
  bytes it wrote to the buffer; its error result is dropped by the source. Both encoders
  start by calling \<open>Bounds\<close> on the image, a method call on an interface value, which
  panics when that value is nil.
\<close>

datatype panic = SliceBoundsOutOfRange nat nat | NilPointerDereference

record 'img codec =
  decode :: "byte list \<Rightarrow> error + 'img"
  encode :: "'img \<Rightarrow> byte list"

text \<open>
  The \<open>for err != nil\<close> loop of \<open>cleanupOutput\<close>, with the decode before it: the result
  is the value of \<open>decoded\<close> when the loop ends (\<open>None\<close> is the nil image left by a
  failed decode), or the panic of \<open>img[1:]\<close> on a buffer of length 0.
\<close>

fun trimLoop :: "(byte list \<Rightarrow> error + 'img) \<Rightarrow> byte list \<Rightarrow> panic + 'img option" where
  "trimLoop dec [] =
     (case dec [] of
        Inr decoded \<Rightarrow> Inr (Some decoded)
      | Inl err \<Rightarrow> Inl (SliceBoundsOutOfRange 1 0))"
| "trimLoop dec (b # img) =
     (case dec (b # img) of
        Inr decoded \<Rightarrow> Inr (Some decoded)
      | Inl err \<Rightarrow> if length img = 0 then Inr None else trimLoop dec img)"

definition encodeImage :: "('img \<Rightarrow> byte list) \<Rightarrow> 'img option \<Rightarrow> panic + byte list" where
  "encodeImage enc decoded =
     (case decoded of None \<Rightarrow> Inl NilPointerDereference | Some m \<Rightarrow> Inr (enc m))"

definition cleanupOutput :: "'img codec \<Rightarrow> 'img codec \<Rightarrow> byte list \<Rightarrow> string \<Rightarrow> panic + byte list" where
  "cleanupOutput png jpeg img format =
     (if format = ''png'' then
        (case trimLoop (decode png) img of
           Inl p \<Rightarrow> Inl p
         | Inr decoded \<Rightarrow> encodeImage (encode png) decoded)
      else if format = ''jpg'' then
        (case trimLoop (decode jpeg) img of
           Inl p \<Rightarrow> Inl p
         | Inr decoded \<Rightarrow> encodeImage (encode jpeg) decoded)
      else Inr img)"

section \<open>The process, its cache and what the invoker does to them\<close>

text \<open>
  The effects of the invoker are recorded as events, in the order the source performs
  them: reads and writes of the cached path, the lookups of the discovery, the spawned
  process with its arguments and the text given to its standard input (\<open>None\<close> when
  \<open>cmd.Stdin\<close> is left nil), and the line printed for an execution error.
\<close>

datatype event =
    CacheGet
  | CacheSet string
  | AbsExeDir
  | LookPath string
  | Getenv string
  | Spawn string "string list" "string option"
  | Println string

record world =
  binImagePath :: string
  trace :: "event list"

definition note_event :: "event \<Rightarrow> world \<Rightarrow> world" where
  "note_event e w = w\<lparr>trace := trace w @ [e]\<rparr>"

text \<open>
  Modelled from the spec: the type \<open>stringStore\<close> of the variable \<open>binImagePath\<close> is
  declared in another file of the package. The spec describes it as the process-wide
  cached executable path, with a query operation that returns the cached path, the empty
  string if none is resolved yet; \<open>Set\<close> stores a path.
\<close>

definition stringStore_Get :: "world \<Rightarrow> string \<times> world" where
  "stringStore_Get w = (binImagePath w, note_event CacheGet w)"

definition stringStore_Set :: "string \<Rightarrow> world \<Rightarrow> world" where
  "stringStore_Set v w = note_event (CacheSet v) (w\<lparr>binImagePath := v\<rparr>)"

definition GetWKHTMLToImagePath :: "world \<Rightarrow> string \<times> world" where
  "GetWKHTMLToImagePath w = stringStore_Get w"

text \<open>
  Modelled from the spec: the type \<open>jsonPDFGenerator\<close> is declared in another file of the
  package. The spec describes the document as an object with a list of page entries,
  each optionally carrying a base64-encoded HTML blob or an input file or URL string.
\<close>

record jsonPage =
  InputFile :: string
  Base64PageData :: string

record jsonPDFGenerator =
  Pages :: "jsonPage list"

text \<open>
  What the invoker asks of the operating system and of Go's library:
  \<open>filepath.Abs(filepath.Dir(os.Args[0]))\<close>, \<open>filepath.Join\<close>, \<open>exec.LookPath\<close>,
  \<open>os.Getenv\<close>, \<open>cmd.CombinedOutput\<close> of a command with its arguments and standard
  input, the two image codecs, the JSON decoder and the base64 decoder.
\<close>

record 'img sys =
  absExeDir :: "error + string"
  joinPath :: "string \<Rightarrow> string \<Rightarrow> string"
  lookPath :: "string \<Rightarrow> string \<times> error option"
  getenv :: "string \<Rightarrow> string"
  combinedOutput :: "string \<Rightarrow> string list \<Rightarrow> string option \<Rightarrow> byte list \<times> error option"
  pngCodec :: "'img codec"
  jpegCodec :: "'img codec"
  jsonDecode :: "byte list \<Rightarrow> error + jsonPDFGenerator"
  base64Decode :: "string \<Rightarrow> error + string"

definition exe :: string where
  "exe = ''wkhtmltoimage''"

definition findPath :: "'img sys \<Rightarrow> world \<Rightarrow> error option \<times> world" where
  "findPath sys w =
     (let (cached, w) = GetWKHTMLToImagePath w in
      if cached \<noteq> '''' then (None, w)
      else
        let w = note_event AbsExeDir w in
        case absExeDir sys of
          Inl err \<Rightarrow> (Some err, w)
        | Inr exeDir \<Rightarrow>
            let w = note_event (LookPath (joinPath sys exeDir exe)) w;
                (path, err) = lookPath sys (joinPath sys exeDir exe)
            in if err = None \<and> path \<noteq> '''' then (None, stringStore_Set path w)
               else
                 let w = note_event (LookPath exe) w;
                     (path, err) = lookPath sys exe
                 in if err = None \<and> path \<noteq> '''' then (None, stringStore_Set path w)
                    else
                      let w = note_event (Getenv ''WKHTMLTOIMAGE_PATH'') w;
                          dir = getenv sys ''WKHTMLTOIMAGE_PATH''
                      in if dir = '''' then (Some (exe @ '' not found''), w)
                         else
                           let w = note_event (LookPath (joinPath sys dir exe)) w;
                               (path, err) = lookPath sys (joinPath sys dir exe)
                           in if err = None \<and> path \<noteq> '''' then (None, stringStore_Set path w)
                              else (Some (exe @ '' not found''), w))"

text \<open>
  \<open>GenerateImage\<close> from \<open>exec.Command\<close> to its return (lines 112 to 125): the options
  are those left by \<open>buildParams\<close> and the path resolution. A panic of \<open>cleanupOutput\<close>
  ends the call with no result pair.
\<close>

definition runCommand ::
    "'img sys \<Rightarrow> world \<Rightarrow> ImageOptions \<Rightarrow> string list \<Rightarrow> (panic + byte list \<times> error option) \<times> ImageOptions \<times> world" where
  "runCommand sys w options arr =
     (let stdin = (if Html options \<noteq> '''' then Some (Html options) else None);
          w = note_event (Spawn (BinaryPath options) arr stdin) w;
          (output, err) = combinedOutput sys (BinaryPath options) arr stdin;
          w = (case err of None \<Rightarrow> w | Some e \<Rightarrow> note_event (Println e) w)
      in case cleanupOutput (pngCodec sys) (jpegCodec sys) output (Format options) of
           Inl p \<Rightarrow> (Inl p, options, w)
         | Inr trimmed \<Rightarrow> (Inr (trimmed, err), options, w))"

definition GenerateImage ::
    "'img sys \<Rightarrow> world \<Rightarrow> ImageOptions \<Rightarrow> (panic + byte list \<times> error option) \<times> ImageOptions \<times> world" where
  "GenerateImage sys w options =
     (let ((arr, err), options) = buildParams options in
      if err \<noteq> None then (Inr ([], err), options, w)
      else
        let (_, w) = findPath sys w in
        if BinaryPath options = '''' then
          let (cached, w) = GetWKHTMLToImagePath w;
              options = options\<lparr>BinaryPath := cached\<rparr>
          in if BinaryPath options = '''' then (Inr ([], Some ''BinaryPath not set''), options, w)
             else runCommand sys w options arr
        else runCommand sys w options arr)"

definition zeroOptions :: ImageOptions where
  "zeroOptions = \<lparr>BinaryPath = '''', Input = '''', Format = '''', Height = 0, Width = 0,
     Quality = 0, Html = '''', Output = ''''\<rparr>"

definition ImageFromJSON ::
    "'img sys \<Rightarrow> world \<Rightarrow> byte list \<Rightarrow> (panic + byte list \<times> error option) \<times> world" where
  "ImageFromJSON sys w jsonReader =
     (case jsonDecode sys jsonReader of
        Inl err \<Rightarrow> (Inr ([], Some (''error unmarshaling JSON: '' @ err)), w)
      | Inr jp \<Rightarrow>
          if length (Pages jp) > 0 then
            let p = Pages jp ! 0 in
            if Base64PageData p = '''' then
              (let (r, _, w) = GenerateImage sys w (zeroOptions\<lparr>Input := InputFile p\<rparr>) in (r, w))
            else
              (case base64Decode sys (Base64PageData p) of
                 Inl err \<Rightarrow> (Inr ([], Some (''error decoding base 64 input on page 0: '' @ err)), w)
               | Inr buf \<Rightarrow>
                   (let (r, _, w) = GenerateImage sys w (zeroOptions\<lparr>Input := ''-'', Html := buf\<rparr>)
                    in (r, w)))
          else (Inr ([], None), w))"

section \<open>Reading an argument list and a trace\<close>

text \<open>
  The elements that directly follow an occurrence of a flag, the part of an argument
  list between the format value and the two positional arguments, the HTML texts that
  a trace shows piped to a process, the paths it shows spawned, and the events that
  belong to the discovery.
\<close>

fun following :: "string \<Rightarrow> string list \<Rightarrow> string list" where
  "following f (x # y # r) = (if x = f then y # following f (y # r) else following f (y # r))"
| "following f r = []"

definition flag_section :: "string list \<Rightarrow> string list" where
  "flag_section a = butlast (butlast (drop 4 a))"

fun piped_of :: "event \<Rightarrow> string list" where
  "piped_of (Spawn p a (Some h)) = [h]"
| "piped_of e = []"

definition piped :: "event list \<Rightarrow> string list" where
  "piped evs = concat (map piped_of evs)"

fun spawn_of :: "event \<Rightarrow> string list" where
  "spawn_of (Spawn p a i) = [p]"
| "spawn_of e = []"

definition spawned :: "event list \<Rightarrow> string list" where
  "spawned evs = concat (map spawn_of evs)"

fun is_lookup :: "event \<Rightarrow> bool" where
  "is_lookup (Spawn p a i) = False"
| "is_lookup (Println s) = False"
| "is_lookup e = True"

text \<open>
  A discovery step hits when \<open>exec.LookPath\<close> returns no error and a non-empty path:
  the test \<open>err == nil && path != ""\<close> of \<open>findPath\<close>.
\<close>

definition found :: "string \<times> error option \<Rightarrow> bool" where
  "found r = (snd r = None \<and> fst r \<noteq> '''')"

section \<open>A concrete system for the worked examples\<close>

text \<open>
  A stand-in codec takes an image to be the bytes after a two-byte signature. The
  example system runs from \<open>/app\<close>, finds the tool on the search path only, and its
  tool prints a warning before the image.
\<close>

definition sig_codec :: "byte list \<Rightarrow> (byte list) codec" where
  "sig_codec sg =
     \<lparr>decode = (\<lambda>bs. if length sg \<le> length bs \<and> take (length sg) bs = sg
                      then Inr (drop (length sg) bs) else Inl ''unexpected EOF''),
      encode = (\<lambda>m. sg @ m)\<rparr>"

definition demo_sys :: "(byte list) sys" where
  "demo_sys =
     \<lparr>absExeDir = Inr ''/app'',
      joinPath = (\<lambda>d f. d @ ''/'' @ f),
      lookPath = (\<lambda>f. if f = ''wkhtmltoimage'' then (''/usr/bin/wkhtmltoimage'', None)
                       else ('''', Some ''executable file not found'')),
      getenv = (\<lambda>k. ''''),
      combinedOutput = (\<lambda>p a i. ([0x57, 0x0A, 0x89, 0x50, 0x01, 0x02], None)),
      pngCodec = sig_codec [0x89, 0x50],
      jpegCodec = sig_codec [0xFF, 0xD8],
      jsonDecode = (\<lambda>bs. if bs = [] then Inl ''EOF'' else Inr \<lparr>Pages = []\<rparr>),
      base64Decode = (\<lambda>s. Inr s)\<rparr>"

definition bare_sys :: "(byte list) sys" where
  "bare_sys = demo_sys\<lparr>lookPath := (\<lambda>f. ('''', Some ''executable file not found''))\<rparr>"

definition fresh :: world where
  "fresh = \<lparr>binImagePath = '''', trace = []\<rparr>"

definition page_options :: ImageOptions where
  "page_options = \<lparr>BinaryPath = ''/opt/wk/wkhtmltoimage'', Input = ''page.html'', Format = '''',
     Height = 600, Width = 0, Quality = 90, Html = ''<p>hi</p>'', Output = ''''\<rparr>"

definition unpathed_options :: ImageOptions where
  "unpathed_options = \<lparr>BinaryPath = '''', Input = ''http://example.com'', Format = ''png'',
     Height = 0, Width = 1024, Quality = 0, Html = '''', Output = ''''\<rparr>"

definition flag_input_options :: ImageOptions where
  "flag_input_options = \<lparr>BinaryPath = '''', Input = ''--height'', Format = '''',
     Height = 0, Width = 0, Quality = 0, Html = '''', Output = ''''\<rparr>"

section \<open>Parsing back what Itoa wrote\<close>

lemma digit_val_digit_char: "d < 10 \<Longrightarrow> digit_val (digit_char d) = Some d"
proof -
  assume "d < 10"
  then have "d \<in> {0,1,2,3,4,5,6,7,8,9}" by auto
  then show ?thesis by (auto simp: digit_val_def digit_char_def)
qed

lemma parseUint_snoc:
  "parseUint acc (cs @ [c]) =
     (case parseUint acc cs of None \<Rightarrow> None
      | Some m \<Rightarrow> (case digit_val c of None \<Rightarrow> None | Some d \<Rightarrow> Some (m * 10 + d)))"
  by (induction cs arbitrary: acc) (auto split: option.splits)

lemma parseUint_formatUint: "parseUint 0 (formatUint n) = Some n"
proof (induction n rule: formatUint.induct)
  case (1 n)
  show ?case
  proof (cases "n < 10")
    case True
    then show ?thesis
      by (subst formatUint.simps) (simp add: digit_val_digit_char)
  next
    case False
    with 1 have ih: "parseUint 0 (formatUint (n div 10)) = Some (n div 10)" by simp
    have "n mod 10 < 10" by simp
    with False ih show ?thesis
      by (subst formatUint.simps) (simp add: parseUint_snoc digit_val_digit_char)
  qed
qed

lemma formatUint_not_Nil: "formatUint n \<noteq> []"
  by (subst formatUint.simps) simp

lemma formatUint_head:
  assumes "formatUint n = c # r"
  shows "c \<noteq> CHR ''-'' \<and> c \<noteq> CHR ''+''"
proof -
  have "parseUint 0 (c # r) = Some n"
    using parseUint_formatUint [of n] assms by simp
  then have "digit_val c \<noteq> None"
    by (auto split: option.splits)
  then show ?thesis
    by (auto simp: digit_val_def)
qed

lemma Atoi_formatInt:
  assumes "- (2 ^ 63) \<le> i" and "i < 2 ^ 63"
  shows "Atoi (formatInt i) = Some i"
proof (cases "i < 0")
  case True
  then show ?thesis
    using assms formatUint_not_Nil [of "nat (- i)"] parseUint_formatUint [of "nat (- i)"]
    by (simp add: Atoi_def formatInt_def)
next
  case False
  obtain c r where cr: "formatUint (nat i) = c # r"
    using formatUint_not_Nil [of "nat i"] by (cases "formatUint (nat i)") auto
  from formatUint_head [OF cr] have "c \<noteq> CHR ''-''" "c \<noteq> CHR ''+''" by auto
  with False cr assms parseUint_formatUint [of "nat i"] show ?thesis
    by (simp add: Atoi_def formatInt_def)
qed

lemma Atoi_Itoa: "Atoi (Itoa w) = Some (sint w)"
proof -
  have "- (2 ^ 63) \<le> sint w" using sint_ge [of w] by simp
  moreover have "sint w < 2 ^ 63" using sint_lt [of w] by simp
  ultimately show ?thesis by (simp add: Itoa_def Atoi_formatInt)
qed

lemma Atoi_flags:
  "Atoi ''--height'' = None" "Atoi ''--width'' = None" "Atoi ''--quality'' = None"
  by (simp_all add: Atoi_def digit_val_def)

lemma Itoa_not_flag:
  "Itoa w \<noteq> ''--height''" "Itoa w \<noteq> ''--width''" "Itoa w \<noteq> ''--quality''"
  using Atoi_Itoa [of w] Atoi_flags by auto

section \<open>The translator\<close>

lemma buildParams_shape:
  assumes "Input options \<noteq> ''''"
  shows "fst (buildParams options) =
    ([''-q'', ''--disable-plugins'', ''--format'', if Format options \<noteq> '''' then Format options else ''png'']
      @ (if Height options \<noteq> 0 then [''--height'', Itoa (Height options)] else [])
      @ (if Width options \<noteq> 0 then [''--width'', Itoa (Width options)] else [])
      @ (if Quality options \<noteq> 0 then [''--quality'', Itoa (Quality options)] else [])
      @ [Input options, if Output options = '''' then ''-'' else Output options], None)"
  using assms by (simp add: buildParams_def Let_def)

lemma buildParams_ok:
  "Input options \<noteq> '''' \<Longrightarrow> snd (fst (buildParams options)) = None"
  by (simp add: buildParams_def Let_def)

lemma buildParams_options:
  "snd (buildParams options) =
     (if Input options \<noteq> '''' \<and> Input options \<noteq> ''-'' then options\<lparr>Html := ''''\<rparr> else options)"
  by (simp add: buildParams_def Let_def)

lemma buildParams_BinaryPath: "BinaryPath (snd (buildParams options)) = BinaryPath options"
  by (simp add: buildParams_options)

text \<open>
  C6. With an empty input the translator fails with the validation error
  "Must provide input" and produces no argument list, whatever the other fields hold;
  the options are left as they were.
\<close>

theorem buildParams_empty_input:
  "Input options = '''' \<Longrightarrow> buildParams options = (([], Some ''Must provide input''), options)"
  by (simp add: buildParams_def)

theorem buildParams_empty_input_witness:
  "Input (page_options\<lparr>Input := ''''\<rparr>) = '''' \<and>
   buildParams (page_options\<lparr>Input := ''''\<rparr>) =
     (([], Some ''Must provide input''), page_options\<lparr>Input := ''''\<rparr>)"
  using buildParams_empty_input [of "page_options\<lparr>Input := ''''\<rparr>"] by simp

text \<open>
  C7. With a non-empty input the translator succeeds and its argument list ends with
  exactly the input source followed by the output destination, or by the sentinel "-"
  when the destination is empty.
\<close>

theorem buildParams_last_two:
  assumes "Input options \<noteq> ''''"
  shows "\<exists>pre. fst (buildParams options) =
           (pre @ [Input options, if Output options = '''' then ''-'' else Output options], None)"
proof -
  let ?pre = "[''-q'', ''--disable-plugins'', ''--format'', if Format options \<noteq> '''' then Format options else ''png'']
      @ (if Height options \<noteq> 0 then [''--height'', Itoa (Height options)] else [])
      @ (if Width options \<noteq> 0 then [''--width'', Itoa (Width options)] else [])
      @ (if Quality options \<noteq> 0 then [''--quality'', Itoa (Quality options)] else [])"
  have "fst (buildParams options) =
      (?pre @ [Input options, if Output options = '''' then ''-'' else Output options], None)"
    using buildParams_shape [OF assms] by simp
  then show ?thesis by blast
qed

theorem buildParams_last_two_witness:
  "Input page_options \<noteq> '''' \<and>
   (\<exists>pre. fst (buildParams page_options) = (pre @ [''page.html'', ''-''], None))"
  using buildParams_last_two [of page_options] by (simp add: page_options_def)

text \<open>
  C9. With a non-empty input the translator always emits the format flag: the list
  starts with "-q", "--disable-plugins", "--format", and the element after "--format"
  is "png" when the Format field is empty and the Format field verbatim otherwise.
\<close>

theorem buildParams_format:
  assumes "Input options \<noteq> ''''"
  shows "take 4 (fst (fst (buildParams options))) =
           [''-q'', ''--disable-plugins'', ''--format'',
            if Format options = '''' then ''png'' else Format options]"
  using buildParams_shape [OF assms] by simp

theorem buildParams_format_witness:
  "Input page_options \<noteq> '''' \<and>
   take 4 (fst (fst (buildParams page_options))) = [''-q'', ''--disable-plugins'', ''--format'', ''png'']"
  using buildParams_format [of page_options] by (simp add: page_options_def)

lemma flag_section_buildParams:
  assumes "Input options \<noteq> ''''"
  shows "flag_section (fst (fst (buildParams options))) =
      (if Height options \<noteq> 0 then [''--height'', Itoa (Height options)] else [])
      @ (if Width options \<noteq> 0 then [''--width'', Itoa (Width options)] else [])
      @ (if Quality options \<noteq> 0 then [''--quality'', Itoa (Quality options)] else [])"
  using buildParams_shape [OF assms] by (simp add: flag_section_def butlast_append)

lemma flag_section_flags:
  assumes "Input options \<noteq> ''''"
  shows "(''--height'' \<in> set (flag_section (fst (fst (buildParams options)))) \<longleftrightarrow> Height options \<noteq> 0)"
    and "map Atoi (following ''--height'' (flag_section (fst (fst (buildParams options))))) =
           (if Height options \<noteq> 0 then [Some (sint (Height options))] else [])"
    and "(''--width'' \<in> set (flag_section (fst (fst (buildParams options)))) \<longleftrightarrow> Width options \<noteq> 0)"
    and "map Atoi (following ''--width'' (flag_section (fst (fst (buildParams options))))) =
           (if Width options \<noteq> 0 then [Some (sint (Width options))] else [])"
    and "(''--quality'' \<in> set (flag_section (fst (fst (buildParams options)))) \<longleftrightarrow> Quality options \<noteq> 0)"
    and "map Atoi (following ''--quality'' (flag_section (fst (fst (buildParams options))))) =
           (if Quality options \<noteq> 0 then [Some (sint (Quality options))] else [])"
  by (simp_all add: flag_section_buildParams [OF assms] Itoa_not_flag Itoa_not_flag [symmetric] Atoi_Itoa)

lemma whole_list_flags:
  assumes "Input options \<noteq> ''''"
    and "Format options \<notin> {''--height'', ''--width'', ''--quality''}"
    and "Input options \<notin> {''--height'', ''--width'', ''--quality''}"
    and "Output options \<notin> {''--height'', ''--width'', ''--quality''}"
  shows "(''--height'' \<in> set (fst (fst (buildParams options))) \<longleftrightarrow> Height options \<noteq> 0)"
    and "map Atoi (following ''--height'' (fst (fst (buildParams options)))) =
           (if Height options \<noteq> 0 then [Some (sint (Height options))] else [])"
    and "(''--width'' \<in> set (fst (fst (buildParams options))) \<longleftrightarrow> Width options \<noteq> 0)"
    and "map Atoi (following ''--width'' (fst (fst (buildParams options)))) =
           (if Width options \<noteq> 0 then [Some (sint (Width options))] else [])"
    and "(''--quality'' \<in> set (fst (fst (buildParams options))) \<longleftrightarrow> Quality options \<noteq> 0)"
    and "map Atoi (following ''--quality'' (fst (fst (buildParams options)))) =
           (if Quality options \<noteq> 0 then [Some (sint (Quality options))] else [])"
proof -
  from assms(2-4) have ne:
    "''--height'' \<noteq> Format options" "''--width'' \<noteq> Format options" "''--quality'' \<noteq> Format options"
    "''--height'' \<noteq> Input options" "''--width'' \<noteq> Input options" "''--quality'' \<noteq> Input options"
    "''--height'' \<noteq> Output options" "''--width'' \<noteq> Output options" "''--quality'' \<noteq> Output options"
    by auto
  note facts = buildParams_shape [OF assms(1)] Itoa_not_flag Itoa_not_flag [symmetric] Atoi_Itoa
    ne ne [symmetric]
  show "(''--height'' \<in> set (fst (fst (buildParams options))) \<longleftrightarrow> Height options \<noteq> 0)"
    by (simp add: facts)
  show "map Atoi (following ''--height'' (fst (fst (buildParams options)))) =
           (if Height options \<noteq> 0 then [Some (sint (Height options))] else [])"
    by (simp add: facts)
  show "(''--width'' \<in> set (fst (fst (buildParams options))) \<longleftrightarrow> Width options \<noteq> 0)"
    by (simp add: facts)
  show "map Atoi (following ''--width'' (fst (fst (buildParams options)))) =
           (if Width options \<noteq> 0 then [Some (sint (Width options))] else [])"
    by (simp add: facts)
  show "(''--quality'' \<in> set (fst (fst (buildParams options))) \<longleftrightarrow> Quality options \<noteq> 0)"
    by (simp add: facts)
  show "map Atoi (following ''--quality'' (fst (fst (buildParams options)))) =
           (if Quality options \<noteq> 0 then [Some (sint (Quality options))] else [])"
    by (simp add: facts)
qed

text \<open>
  C8, as stated, fails: the translator echoes Format, Input and Output verbatim, so a
  flag name can stand in the argument list although its field is zero. With the input
  "--height" and a zero height the list holds "--height".
\<close>

theorem flag_named_input:
  "Input flag_input_options \<noteq> '''' \<and> Height flag_input_options = 0 \<and>
   ''--height'' \<in> set (fst (fst (buildParams flag_input_options))) \<and>
   fst (fst (buildParams flag_input_options)) =
     [''-q'', ''--disable-plugins'', ''--format'', ''png'', ''--height'', ''-'']"
  by (simp add: buildParams_def flag_input_options_def Let_def)

text \<open>
  C8, amended. With a non-empty input, among the elements after the format value and
  before the two positional arguments, each of "--height", "--width" and "--quality"
  appears if and only if its field is non-zero, and then exactly once, directly
  followed by an element that \<open>Atoi\<close> parses back to the field's value. When none of
  Format, Input and Output is itself one of the three flag names, the same holds of the
  whole argument list.
\<close>

theorem buildParams_size_flags:
  assumes "Input options \<noteq> ''''"
  shows "(''--height'' \<in> set (flag_section (fst (fst (buildParams options)))) \<longleftrightarrow> Height options \<noteq> 0)
       \<and> map Atoi (following ''--height'' (flag_section (fst (fst (buildParams options))))) =
           (if Height options \<noteq> 0 then [Some (sint (Height options))] else [])
       \<and> (''--width'' \<in> set (flag_section (fst (fst (buildParams options)))) \<longleftrightarrow> Width options \<noteq> 0)
       \<and> map Atoi (following ''--width'' (flag_section (fst (fst (buildParams options))))) =
           (if Width options \<noteq> 0 then [Some (sint (Width options))] else [])
       \<and> (''--quality'' \<in> set (flag_section (fst (fst (buildParams options)))) \<longleftrightarrow> Quality options \<noteq> 0)
       \<and> map Atoi (following ''--quality'' (flag_section (fst (fst (buildParams options))))) =
           (if Quality options \<noteq> 0 then [Some (sint (Quality options))] else [])
       \<and> (Format options \<notin> {''--height'', ''--width'', ''--quality''}
          \<and> Input options \<notin> {''--height'', ''--width'', ''--quality''}
          \<and> Output options \<notin> {''--height'', ''--width'', ''--quality''} \<longrightarrow>
            (''--height'' \<in> set (fst (fst (buildParams options))) \<longleftrightarrow> Height options \<noteq> 0)
          \<and> map Atoi (following ''--height'' (fst (fst (buildParams options)))) =
              (if Height options \<noteq> 0 then [Some (sint (Height options))] else [])
          \<and> (''--width'' \<in> set (fst (fst (buildParams options))) \<longleftrightarrow> Width options \<noteq> 0)
          \<and> map Atoi (following ''--width'' (fst (fst (buildParams options)))) =
              (if Width options \<noteq> 0 then [Some (sint (Width options))] else [])
          \<and> (''--quality'' \<in> set (fst (fst (buildParams options))) \<longleftrightarrow> Quality options \<noteq> 0)
          \<and> map Atoi (following ''--quality'' (fst (fst (buildParams options)))) =
              (if Quality options \<noteq> 0 then [Some (sint (Quality options))] else []))"
  using flag_section_flags [OF assms] whole_list_flags [OF assms]
  by blast

theorem buildParams_size_flags_witness:
  "Input page_options \<noteq> '''' \<and>
   ''--height'' \<in> set (fst (fst (buildParams page_options))) \<and>
   map Atoi (following ''--height'' (fst (fst (buildParams page_options)))) = [Some 600] \<and>
   ''--width'' \<notin> set (fst (fst (buildParams page_options))) \<and>
   map Atoi (following ''--quality'' (fst (fst (buildParams page_options)))) = [Some 90]"
proof -
  have i: "Input page_options \<noteq> ''''"
    by (simp add: page_options_def)
  have v: "Format page_options \<notin> {''--height'', ''--width'', ''--quality''}
          \<and> Input page_options \<notin> {''--height'', ''--width'', ''--quality''}
          \<and> Output page_options \<notin> {''--height'', ''--width'', ''--quality''}"
    by (simp add: page_options_def)
  have h: "Height page_options = 600" "Width page_options = 0" "Quality page_options = 90"
    by (simp_all add: page_options_def)
  from buildParams_size_flags [OF i] v i show ?thesis
    by (simp add: h)
qed

section \<open>Properties of the output repair\<close>

lemma trimLoop_undecodable:
  "\<forall>k. isl (dec (drop k img)) \<Longrightarrow>
     trimLoop dec img = (if img = [] then Inl (SliceBoundsOutOfRange 1 0) else Inr None)"
proof (induction img)
  case Nil
  then have "isl (dec [])" by simp
  then show ?case by (cases "dec []") auto
next
  case (Cons b img)
  from Cons.prems have here: "isl (dec (b # img))"
    by (metis drop0)
  have rest: "\<forall>k. isl (dec (drop k img))"
  proof
    fix k
    from Cons.prems have "isl (dec (drop (Suc k) (b # img)))" by blast
    then show "isl (dec (drop k img))" by simp
  qed
  from here obtain e where e: "dec (b # img) = Inl e"
    by (cases "dec (b # img)") auto
  show ?case
  proof (cases "img = []")
    case True
    with e show ?thesis by simp
  next
    case False
    with e Cons.IH [OF rest] show ?thesis by simp
  qed
qed

lemma cleanupOutput_other:
  "format \<noteq> ''png'' \<Longrightarrow> format \<noteq> ''jpg'' \<Longrightarrow> cleanupOutput png jpeg img format = Inr img"
  by (simp add: cleanupOutput_def)

text \<open>
  When some suffix of the captured bytes decodes, the loop stops at the first one and
  the result is its re-encoding: leading noise is stripped.
\<close>

lemma trimLoop_first:
  assumes "dec (drop k img) = Inr m" and "k < length img" and "\<forall>j<k. isl (dec (drop j img))"
  shows "trimLoop dec img = Inr (Some m)"
  using assms
proof (induction img arbitrary: k)
  case Nil
  then show ?case by simp
next
  case (Cons b img)
  show ?case
  proof (cases k)
    case 0
    with Cons.prems(1) show ?thesis by simp
  next
    case (Suc k')
    with Cons.prems have d: "dec (drop k' img) = Inr m" and l: "k' < length img"
      by simp_all
    have r: "\<forall>j<k'. isl (dec (drop j img))"
    proof (intro allI impI)
      fix j assume "j < k'"
      then have "Suc j < k" using Suc by simp
      with Cons.prems(3) have "isl (dec (drop (Suc j) (b # img)))" by blast
      then show "isl (dec (drop j img))" by simp
    qed
    from Cons.prems(3) Suc have "isl (dec (drop 0 (b # img)))" by blast
    then obtain e where e: "dec (b # img) = Inl e"
      by (cases "dec (b # img)") auto
    from l have "img \<noteq> []" by auto
    with e Cons.IH [OF d l r] show ?thesis by simp
  qed
qed

lemma cleanupOutput_strips_noise:
  assumes "decode png (drop k img) = Inr m" and "k < length img"
    and "\<forall>j<k. isl (decode png (drop j img))"
  shows "cleanupOutput png jpeg img ''png'' = Inr (encode png m)"
  using trimLoop_first [OF assms] by (simp add: cleanupOutput_def encodeImage_def)

lemma cleanupOutput_strips_noise_example:
  "cleanupOutput (sig_codec [0x89, 0x50]) (sig_codec [0xFF, 0xD8]) [0x57, 0x0A, 0x89, 0x50, 0x01, 0x02] ''png''
     = Inr [0x89, 0x50, 0x01, 0x02]"
proof -
  have d: "decode (sig_codec [0x89, 0x50]) (drop 2 [0x57, 0x0A, 0x89, 0x50, 0x01, 0x02]) = Inr [0x01, 0x02]"
    by (simp add: sig_codec_def)
  have l: "(2::nat) < length [0x57 :: byte, 0x0A, 0x89, 0x50, 0x01, 0x02]"
    by simp
  have r: "\<forall>j<2. isl (decode (sig_codec [0x89, 0x50]) (drop j [0x57, 0x0A, 0x89, 0x50, 0x01, 0x02]))"
  proof (intro allI impI)
    fix j :: nat assume "j < 2"
    then have "j = 0 \<or> j = 1" by auto
    then show "isl (decode (sig_codec [0x89, 0x50]) (drop j [0x57, 0x0A, 0x89, 0x50, 0x01, 0x02]))"
      by (auto simp: sig_codec_def)
  qed
  from cleanupOutput_strips_noise [OF d l r, of "sig_codec [0xFF, 0xD8]"] show ?thesis
    by (simp add: sig_codec_def)
qed

lemma sig_rejects_zero: "\<forall>k. isl (decode (sig_codec [a, b]) (drop k [0]))"
proof
  fix k
  show "isl (decode (sig_codec [a, b]) (drop k [0]))"
    by (cases k) (simp_all add: sig_codec_def)
qed

text \<open>
  C1. The specification has the repair loop never raise an error and hand back the
  exhausted buffer when trimming finds no image. The code panics instead: for format
  "png" or "jpg", when no suffix of the captured bytes decodes, \<open>cleanupOutput\<close>
  returns nothing. An empty buffer makes \<open>img[1:]\<close> panic with slice bounds out of
  range, and a non-empty one leaves the loop with a nil image, on which the encoder
  panics.
\<close>

theorem cleanupOutput_undecodable:
  assumes "\<forall>k. isl (decode png (drop k img))"
    and "\<forall>k. isl (decode jpeg (drop k img))"
    and "format = ''png'' \<or> format = ''jpg''"
  shows "cleanupOutput png jpeg img format =
           Inl (if img = [] then SliceBoundsOutOfRange 1 0 else NilPointerDereference)"
  using assms(3) trimLoop_undecodable [OF assms(1)] trimLoop_undecodable [OF assms(2)]
  by (auto simp: cleanupOutput_def encodeImage_def)

theorem cleanupOutput_undecodable_witness:
  "cleanupOutput (sig_codec [0x89, 0x50]) (sig_codec [0xFF, 0xD8]) [] ''png''
     = Inl (SliceBoundsOutOfRange 1 0) \<and>
   cleanupOutput (sig_codec [0x89, 0x50]) (sig_codec [0xFF, 0xD8]) [0] ''jpg''
     = Inl NilPointerDereference"
proof -
  have e: "\<forall>k. isl (decode (sig_codec [a, b]) (drop k []))" for a b
    by (simp add: sig_codec_def)
  have "cleanupOutput (sig_codec [0x89, 0x50]) (sig_codec [0xFF, 0xD8]) [] ''png''
     = Inl (SliceBoundsOutOfRange 1 0)"
    using cleanupOutput_undecodable [OF e e, of "''png''" "0x89" "0x50" "0xFF" "0xD8"] by simp
  moreover have "cleanupOutput (sig_codec [0x89, 0x50]) (sig_codec [0xFF, 0xD8]) [0] ''jpg''
     = Inl NilPointerDereference"
    using cleanupOutput_undecodable [OF sig_rejects_zero sig_rejects_zero, of "''jpg''" "0x89" "0x50" "0xFF" "0xD8"]
    by simp
  ultimately show ?thesis by simp
qed

section \<open>Discovery and invocation\<close>

lemma findPath_found:
  "findPath sys w =
     (let w1 = note_event CacheGet w in
      if binImagePath w \<noteq> '''' then (None, w1)
      else
        let w2 = note_event AbsExeDir w1 in
        case absExeDir sys of
          Inl err \<Rightarrow> (Some err, w2)
        | Inr exeDir \<Rightarrow>
            let w3 = note_event (LookPath (joinPath sys exeDir exe)) w2 in
            if found (lookPath sys (joinPath sys exeDir exe))
            then (None, stringStore_Set (fst (lookPath sys (joinPath sys exeDir exe))) w3)
            else
              let w4 = note_event (LookPath exe) w3 in
              if found (lookPath sys exe) then (None, stringStore_Set (fst (lookPath sys exe)) w4)
              else
                let w5 = note_event (Getenv ''WKHTMLTOIMAGE_PATH'') w4;
                    dir = getenv sys ''WKHTMLTOIMAGE_PATH''
                in if dir = '''' then (Some (exe @ '' not found''), w5)
                   else
                     let w6 = note_event (LookPath (joinPath sys dir exe)) w5 in
                     if found (lookPath sys (joinPath sys dir exe))
                     then (None, stringStore_Set (fst (lookPath sys (joinPath sys dir exe))) w6)
                     else (Some (exe @ '' not found''), w6))"
  by (simp add: findPath_def GetWKHTMLToImagePath_def stringStore_Get_def found_def split_beta Let_def
      split: sum.splits)

lemma findPath_cached:
  "binImagePath w \<noteq> '''' \<Longrightarrow> findPath sys w = (None, w\<lparr>trace := trace w @ [CacheGet]\<rparr>)"
  by (simp add: findPath_found note_event_def)

lemma findPath_trace:
  "\<exists>evs. trace (snd (findPath sys w)) = trace w @ CacheGet # evs \<and>
         piped evs = [] \<and> spawned evs = []"
  by (simp add: findPath_found stringStore_Set_def
      note_event_def piped_def spawned_def Let_def split: sum.splits)

lemma piped_append: "piped (xs @ ys) = piped xs @ piped ys"
  by (simp add: piped_def)

lemma spawned_append: "spawned (xs @ ys) = spawned xs @ spawned ys"
  by (simp add: spawned_def)

lemma findPath_piped: "piped (trace (snd (findPath sys w))) = piped (trace w)"
  using findPath_trace [of sys w] by (auto simp: piped_append piped_def)

lemma findPath_spawned: "spawned (trace (snd (findPath sys w))) = spawned (trace w)"
  using findPath_trace [of sys w] by (auto simp: spawned_append spawned_def)

lemma findPath_reads_cache:
  "take (Suc (length (trace w))) (trace (snd (findPath sys w))) = trace w @ [CacheGet]"
  using findPath_trace [of sys w] by auto

lemma findPath_all_fail:
  assumes "binImagePath w = ''''"
    and "case absExeDir sys of Inl e \<Rightarrow> True | Inr d \<Rightarrow> \<not> found (lookPath sys (joinPath sys d exe))"
    and "\<not> found (lookPath sys exe)"
    and "getenv sys ''WKHTMLTOIMAGE_PATH'' = '''' \<or>
         \<not> found (lookPath sys (joinPath sys (getenv sys ''WKHTMLTOIMAGE_PATH'') exe))"
  shows "binImagePath (snd (findPath sys w)) = ''''"
    and "fst (findPath sys w) =
           (case absExeDir sys of Inl e \<Rightarrow> Some e | Inr d \<Rightarrow> Some ''wkhtmltoimage not found'')"
  using assms
  by (auto simp: findPath_found note_event_def Let_def exe_def split: sum.splits)

lemma runCommand_trace:
  "snd (snd (runCommand sys w options arr)) =
     (let stdin = (if Html options \<noteq> '''' then Some (Html options) else None);
          w1 = note_event (Spawn (BinaryPath options) arr stdin) w
      in case snd (combinedOutput sys (BinaryPath options) arr stdin) of
           None \<Rightarrow> w1 | Some e \<Rightarrow> note_event (Println e) w1)"
  by (simp add: runCommand_def Let_def split_beta split: sum.splits option.splits)

lemma runCommand_options: "fst (snd (runCommand sys w options arr)) = options"
  by (simp add: runCommand_def Let_def split_beta split: sum.splits)

lemma runCommand_unset_format:
  "Format options = '''' \<Longrightarrow>
     fst (runCommand sys w options arr) =
       Inr (combinedOutput sys (BinaryPath options) arr
              (if Html options \<noteq> '''' then Some (Html options) else None))"
  by (simp add: runCommand_def Let_def split_beta cleanupOutput_def)

lemma runCommand_piped:
  "Html options = '''' \<Longrightarrow> piped (trace (snd (snd (runCommand sys w options arr)))) = piped (trace w)"
  by (simp add: runCommand_trace Let_def note_event_def piped_append split: option.splits)
     (simp add: piped_def)

lemma GenerateImage_valid:
  assumes "Input options \<noteq> ''''"
  shows "GenerateImage sys w options =
     (if BinaryPath options = '''' then
        (if binImagePath (snd (findPath sys w)) = '''' then
           (Inr ([], Some ''BinaryPath not set''), snd (buildParams options),
            note_event CacheGet (snd (findPath sys w)))
         else runCommand sys (note_event CacheGet (snd (findPath sys w)))
                ((snd (buildParams options))\<lparr>BinaryPath := binImagePath (snd (findPath sys w))\<rparr>)
                (fst (fst (buildParams options))))
      else runCommand sys (snd (findPath sys w)) (snd (buildParams options))
             (fst (fst (buildParams options))))"
  using assms buildParams_ok [OF assms]
  by (simp add: GenerateImage_def split_beta Let_def GetWKHTMLToImagePath_def
      stringStore_Get_def buildParams_options)

lemma GenerateImage_explicit:
  assumes "Input options \<noteq> ''''" and "BinaryPath options \<noteq> ''''"
  shows "GenerateImage sys w options =
      runCommand sys (snd (findPath sys w)) (snd (buildParams options)) (fst (fst (buildParams options)))"
  using assms by (simp add: GenerateImage_valid)

lemma GenerateImage_explicit_trace:
  assumes "Input options \<noteq> ''''" and "BinaryPath options \<noteq> ''''"
  shows "trace (snd (snd (GenerateImage sys w options))) =
           trace (snd (findPath sys w))
           @ [Spawn (BinaryPath options) (fst (fst (buildParams options)))
                (if Html (snd (buildParams options)) \<noteq> ''''
                 then Some (Html (snd (buildParams options))) else None)]
           @ (case snd (combinedOutput sys (BinaryPath options) (fst (fst (buildParams options)))
                     (if Html (snd (buildParams options)) \<noteq> ''''
                      then Some (Html (snd (buildParams options))) else None)) of
                None \<Rightarrow> [] | Some e \<Rightarrow> [Println e])"
  by (simp add: GenerateImage_explicit [OF assms] runCommand_trace buildParams_BinaryPath
      Let_def note_event_def split: option.splits)

lemma GenerateImage_explicit_cache:
  assumes "Input options \<noteq> ''''" and "BinaryPath options \<noteq> ''''"
  shows "binImagePath (snd (snd (GenerateImage sys w options))) = binImagePath (snd (findPath sys w))"
  by (simp add: GenerateImage_explicit [OF assms] runCommand_trace buildParams_BinaryPath
      Let_def note_event_def split: option.splits)

lemma GenerateImage_explicit_spawned:
  assumes "Input options \<noteq> ''''" and "BinaryPath options \<noteq> ''''"
  shows "spawned (trace (snd (snd (GenerateImage sys w options)))) = spawned (trace w) @ [BinaryPath options]"
  by (simp add: GenerateImage_explicit_trace [OF assms] spawned_append findPath_spawned)
     (auto simp: spawned_def split: option.splits)

lemma findPath_cache_value:
  "binImagePath (snd (findPath sys w)) =
     (if binImagePath w \<noteq> '''' then binImagePath w
      else case absExeDir sys of
             Inl err \<Rightarrow> ''''
           | Inr exeDir \<Rightarrow>
               if found (lookPath sys (joinPath sys exeDir exe))
               then fst (lookPath sys (joinPath sys exeDir exe))
               else if found (lookPath sys exe) then fst (lookPath sys exe)
               else if getenv sys ''WKHTMLTOIMAGE_PATH'' \<noteq> '''' \<and>
                       found (lookPath sys (joinPath sys (getenv sys ''WKHTMLTOIMAGE_PATH'') exe))
               then fst (lookPath sys (joinPath sys (getenv sys ''WKHTMLTOIMAGE_PATH'') exe))
               else '''')"
  by (simp add: findPath_found stringStore_Set_def note_event_def Let_def split: sum.splits)

lemma findPath_events:
  "trace (snd (findPath sys w)) =
     trace w @ CacheGet #
       (if binImagePath w \<noteq> '''' then []
        else AbsExeDir #
          (case absExeDir sys of
             Inl err \<Rightarrow> []
           | Inr exeDir \<Rightarrow>
               LookPath (joinPath sys exeDir exe) #
               (if found (lookPath sys (joinPath sys exeDir exe))
                then [CacheSet (fst (lookPath sys (joinPath sys exeDir exe)))]
                else LookPath exe #
                  (if found (lookPath sys exe) then [CacheSet (fst (lookPath sys exe))]
                   else Getenv ''WKHTMLTOIMAGE_PATH'' #
                     (if getenv sys ''WKHTMLTOIMAGE_PATH'' = '''' then []
                      else LookPath (joinPath sys (getenv sys ''WKHTMLTOIMAGE_PATH'') exe) #
                        (if found (lookPath sys (joinPath sys (getenv sys ''WKHTMLTOIMAGE_PATH'') exe))
                         then [CacheSet (fst (lookPath sys (joinPath sys (getenv sys ''WKHTMLTOIMAGE_PATH'') exe)))]
                         else []))))))"
  by (simp add: findPath_found stringStore_Set_def note_event_def Let_def split: sum.splits)

lemma findPath_only_lookups:
  "filter is_lookup (drop (length (trace w)) (trace (snd (findPath sys w)))) =
     drop (length (trace w)) (trace (snd (findPath sys w)))"
  by (simp add: findPath_events split: sum.splits)

lemma GenerateImage_explicit_lookups:
  assumes "Input options \<noteq> ''''" and "BinaryPath options \<noteq> ''''"
  shows "filter is_lookup (drop (length (trace w)) (trace (snd (snd (GenerateImage sys w options))))) =
           drop (length (trace w)) (trace (snd (findPath sys w)))"
proof -
  obtain evs where evs: "trace (snd (findPath sys w)) = trace w @ evs"
    using findPath_events [of sys w] by blast
  have l: "filter is_lookup evs = evs"
    using findPath_only_lookups [of w sys] by (simp add: evs)
  show ?thesis
    by (simp add: GenerateImage_explicit_trace [OF assms] evs l split: option.splits)
qed

lemma demo_findPath:
  "findPath demo_sys fresh =
     (None, \<lparr>binImagePath = ''/usr/bin/wkhtmltoimage'',
        trace = [CacheGet, AbsExeDir, LookPath ''/app/wkhtmltoimage'', LookPath ''wkhtmltoimage'',
                 CacheSet ''/usr/bin/wkhtmltoimage'']\<rparr>)"
  by (simp add: findPath_def demo_sys_def fresh_def GetWKHTMLToImagePath_def stringStore_Get_def
      stringStore_Set_def note_event_def exe_def Let_def)

lemma bare_findPath:
  "findPath bare_sys fresh =
     (Some ''wkhtmltoimage not found'',
      \<lparr>binImagePath = '''',
       trace = [CacheGet, AbsExeDir, LookPath ''/app/wkhtmltoimage'', LookPath ''wkhtmltoimage'',
                Getenv ''WKHTMLTOIMAGE_PATH'']\<rparr>)"
  by (simp add: findPath_def bare_sys_def demo_sys_def fresh_def GetWKHTMLToImagePath_def
      stringStore_Get_def stringStore_Set_def note_event_def exe_def Let_def)

text \<open>
  C2, as stated, fails: \<open>GenerateImage\<close> calls \<open>findPath\<close> before it looks at the binary
  path of the options. On a fresh process, with an explicit path in the options, the
  cache is read, the adjacent directory and the search path are looked up, and the hit
  is stored in the cache.
\<close>

theorem GenerateImage_explicit_path_consults_discovery:
  "BinaryPath page_options = ''/opt/wk/wkhtmltoimage'' \<and>
   binImagePath fresh = '''' \<and>
   binImagePath (snd (snd (GenerateImage demo_sys fresh page_options))) = ''/usr/bin/wkhtmltoimage'' \<and>
   filter is_lookup (trace (snd (snd (GenerateImage demo_sys fresh page_options)))) =
     [CacheGet, AbsExeDir, LookPath ''/app/wkhtmltoimage'', LookPath ''wkhtmltoimage'',
      CacheSet ''/usr/bin/wkhtmltoimage'']"
proof -
  have i: "Input page_options \<noteq> ''''" and b: "BinaryPath page_options \<noteq> ''''"
    by (simp_all add: page_options_def)
  show ?thesis
    by (simp add: GenerateImage_explicit_trace [OF i b] GenerateImage_explicit_cache [OF i b]
        demo_findPath)
       (simp add: page_options_def fresh_def demo_sys_def)
qed

text \<open>
  C2, amended. With a non-empty input and a non-empty explicit binary path,
  \<open>GenerateImage\<close> spawns exactly one process, at that path: the discovery result does
  not choose the binary. The discovery still runs first, as \<open>findPath\<close> does on its
  own, and the cache after the call is as \<open>findPath\<close> left it. The call always reads
  the cache. When the cached path is non-empty that is its only lookup and the cache is
  unchanged. When it is empty, the call resolves the adjacent directory and, unless that
  fails, looks there, then on the search path, then reads the environment variable and
  looks in its directory if it names one; it stops at the first hit and stores that path
  in the cache, and with no hit the cache stays empty.
\<close>

theorem GenerateImage_explicit_path:
  assumes "Input options \<noteq> ''''" and "BinaryPath options \<noteq> ''''"
  shows "spawned (trace (snd (snd (GenerateImage sys w options)))) = spawned (trace w) @ [BinaryPath options]
       \<and> trace (snd (snd (GenerateImage sys w options))) =
           trace (snd (findPath sys w))
           @ [Spawn (BinaryPath options) (fst (fst (buildParams options)))
                (if Html (snd (buildParams options)) \<noteq> ''''
                 then Some (Html (snd (buildParams options))) else None)]
           @ (case snd (combinedOutput sys (BinaryPath options) (fst (fst (buildParams options)))
                     (if Html (snd (buildParams options)) \<noteq> ''''
                      then Some (Html (snd (buildParams options))) else None)) of
                None \<Rightarrow> [] | Some e \<Rightarrow> [Println e])
       \<and> binImagePath (snd (snd (GenerateImage sys w options))) = binImagePath (snd (findPath sys w))
       \<and> take (Suc (length (trace w))) (trace (snd (findPath sys w))) = trace w @ [CacheGet]
       \<and> binImagePath (snd (snd (GenerateImage sys w options))) =
           (if binImagePath w \<noteq> '''' then binImagePath w
            else case absExeDir sys of
                   Inl err \<Rightarrow> ''''
                 | Inr exeDir \<Rightarrow>
                     if found (lookPath sys (joinPath sys exeDir exe))
                     then fst (lookPath sys (joinPath sys exeDir exe))
                     else if found (lookPath sys exe) then fst (lookPath sys exe)
                     else if getenv sys ''WKHTMLTOIMAGE_PATH'' \<noteq> '''' \<and>
                             found (lookPath sys (joinPath sys (getenv sys ''WKHTMLTOIMAGE_PATH'') exe))
                     then fst (lookPath sys (joinPath sys (getenv sys ''WKHTMLTOIMAGE_PATH'') exe))
                     else '''')
       \<and> filter is_lookup (drop (length (trace w)) (trace (snd (snd (GenerateImage sys w options))))) =
           CacheGet #
             (if binImagePath w \<noteq> '''' then []
              else AbsExeDir #
                (case absExeDir sys of
                   Inl err \<Rightarrow> []
                 | Inr exeDir \<Rightarrow>
                     LookPath (joinPath sys exeDir exe) #
                     (if found (lookPath sys (joinPath sys exeDir exe))
                      then [CacheSet (fst (lookPath sys (joinPath sys exeDir exe)))]
                      else LookPath exe #
                        (if found (lookPath sys exe) then [CacheSet (fst (lookPath sys exe))]
                         else Getenv ''WKHTMLTOIMAGE_PATH'' #
                           (if getenv sys ''WKHTMLTOIMAGE_PATH'' = '''' then []
                            else LookPath (joinPath sys (getenv sys ''WKHTMLTOIMAGE_PATH'') exe) #
                              (if found (lookPath sys (joinPath sys (getenv sys ''WKHTMLTOIMAGE_PATH'') exe))
                               then [CacheSet (fst (lookPath sys (joinPath sys (getenv sys ''WKHTMLTOIMAGE_PATH'') exe)))]
                               else []))))))"
proof -
  note a = GenerateImage_explicit_spawned [OF assms]
  note b = GenerateImage_explicit_trace [OF assms]
  note c = GenerateImage_explicit_cache [OF assms]
  note d = findPath_reads_cache [of w sys]
  have e: "binImagePath (snd (snd (GenerateImage sys w options))) =
           (if binImagePath w \<noteq> '''' then binImagePath w
            else case absExeDir sys of
                   Inl err \<Rightarrow> ''''
                 | Inr exeDir \<Rightarrow>
                     if found (lookPath sys (joinPath sys exeDir exe))
                     then fst (lookPath sys (joinPath sys exeDir exe))
                     else if found (lookPath sys exe) then fst (lookPath sys exe)
                     else if getenv sys ''WKHTMLTOIMAGE_PATH'' \<noteq> '''' \<and>
                             found (lookPath sys (joinPath sys (getenv sys ''WKHTMLTOIMAGE_PATH'') exe))
                     then fst (lookPath sys (joinPath sys (getenv sys ''WKHTMLTOIMAGE_PATH'') exe))
                     else '''')"
    unfolding c by (rule findPath_cache_value)
  have f: "filter is_lookup (drop (length (trace w)) (trace (snd (snd (GenerateImage sys w options))))) =
           CacheGet #
             (if binImagePath w \<noteq> '''' then []
              else AbsExeDir #
                (case absExeDir sys of
                   Inl err \<Rightarrow> []
                 | Inr exeDir \<Rightarrow>
                     LookPath (joinPath sys exeDir exe) #
                     (if found (lookPath sys (joinPath sys exeDir exe))
                      then [CacheSet (fst (lookPath sys (joinPath sys exeDir exe)))]
                      else LookPath exe #
                        (if found (lookPath sys exe) then [CacheSet (fst (lookPath sys exe))]
                         else Getenv ''WKHTMLTOIMAGE_PATH'' #
                           (if getenv sys ''WKHTMLTOIMAGE_PATH'' = '''' then []
                            else LookPath (joinPath sys (getenv sys ''WKHTMLTOIMAGE_PATH'') exe) #
                              (if found (lookPath sys (joinPath sys (getenv sys ''WKHTMLTOIMAGE_PATH'') exe))
                               then [CacheSet (fst (lookPath sys (joinPath sys (getenv sys ''WKHTMLTOIMAGE_PATH'') exe)))]
                               else []))))))"
    unfolding GenerateImage_explicit_lookups [OF assms] by (simp add: findPath_events)
  from a b c d e f show ?thesis
    by (intro conjI)
qed

theorem GenerateImage_explicit_path_witness:
  "Input page_options \<noteq> '''' \<and> BinaryPath page_options \<noteq> '''' \<and>
   spawned (trace (snd (snd (GenerateImage demo_sys fresh page_options)))) = [''/opt/wk/wkhtmltoimage''] \<and>
   binImagePath (snd (snd (GenerateImage demo_sys fresh page_options))) = ''/usr/bin/wkhtmltoimage'' \<and>
   filter is_lookup (drop (length (trace fresh)) (trace (snd (snd (GenerateImage demo_sys fresh page_options))))) =
     [CacheGet, AbsExeDir, LookPath ''/app/wkhtmltoimage'', LookPath ''wkhtmltoimage'',
      CacheSet ''/usr/bin/wkhtmltoimage'']"
proof -
  have i: "Input page_options \<noteq> ''''" and b: "BinaryPath page_options \<noteq> ''''"
    by (simp_all add: page_options_def)
  have p: "BinaryPath page_options = ''/opt/wk/wkhtmltoimage''"
    by (simp add: page_options_def)
  have f: "spawned (trace fresh) = []" "binImagePath fresh = ''''"
    by (simp_all add: fresh_def spawned_def)
  have s: "absExeDir demo_sys = Inr ''/app''"
    "joinPath demo_sys ''/app'' ''wkhtmltoimage'' = ''/app/wkhtmltoimage''"
    "\<not> found (lookPath demo_sys ''/app/wkhtmltoimage'')"
    "found (lookPath demo_sys ''wkhtmltoimage'')"
    "fst (lookPath demo_sys ''wkhtmltoimage'') = ''/usr/bin/wkhtmltoimage''"
    by (simp_all add: demo_sys_def found_def)
  from GenerateImage_explicit_path [OF i b, of demo_sys fresh]
  have "spawned (trace (snd (snd (GenerateImage demo_sys fresh page_options)))) =
          spawned (trace fresh) @ [BinaryPath page_options]"
    and "binImagePath (snd (snd (GenerateImage demo_sys fresh page_options))) =
          binImagePath (snd (findPath demo_sys fresh))"
    and "filter is_lookup (drop (length (trace fresh)) (trace (snd (snd (GenerateImage demo_sys fresh page_options))))) =
           CacheGet #
             (if binImagePath fresh \<noteq> '''' then []
              else AbsExeDir #
                (case absExeDir demo_sys of
                   Inl err \<Rightarrow> []
                 | Inr exeDir \<Rightarrow>
                     LookPath (joinPath demo_sys exeDir exe) #
                     (if found (lookPath demo_sys (joinPath demo_sys exeDir exe))
                      then [CacheSet (fst (lookPath demo_sys (joinPath demo_sys exeDir exe)))]
                      else LookPath exe #
                        (if found (lookPath demo_sys exe) then [CacheSet (fst (lookPath demo_sys exe))]
                         else Getenv ''WKHTMLTOIMAGE_PATH'' #
                           (if getenv demo_sys ''WKHTMLTOIMAGE_PATH'' = '''' then []
                            else LookPath (joinPath demo_sys (getenv demo_sys ''WKHTMLTOIMAGE_PATH'') exe) #
                              (if found (lookPath demo_sys (joinPath demo_sys (getenv demo_sys ''WKHTMLTOIMAGE_PATH'') exe))
                               then [CacheSet (fst (lookPath demo_sys (joinPath demo_sys (getenv demo_sys ''WKHTMLTOIMAGE_PATH'') exe)))]
                               else []))))))"
    by blast+
  with i b show ?thesis
    by (simp add: p f demo_findPath exe_def s)
qed

text \<open>
  C3, as stated, fails: when every discovery step fails, \<open>findPath\<close> returns the error
  "wkhtmltoimage not found", but \<open>GenerateImage\<close> drops that result and returns an
  error of its own, "BinaryPath not set".
\<close>

theorem GenerateImage_not_found_message:
  "fst (GenerateImage bare_sys fresh unpathed_options) = Inr ([], Some ''BinaryPath not set'') \<and>
   fst (GenerateImage bare_sys fresh unpathed_options) \<noteq> Inr ([], Some ''wkhtmltoimage not found'') \<and>
   fst (findPath bare_sys fresh) = Some ''wkhtmltoimage not found''"
proof -
  have i: "Input unpathed_options \<noteq> ''''" and b: "BinaryPath unpathed_options = ''''"
    by (simp_all add: unpathed_options_def)
  have "fst (GenerateImage bare_sys fresh unpathed_options) = Inr ([], Some ''BinaryPath not set'')"
    by (simp add: GenerateImage_valid [OF i] b bare_findPath)
  then show ?thesis
    by (simp add: bare_findPath)
qed

text \<open>
  C3, amended. With a non-empty input, no explicit binary path, an empty cache and all
  three discovery steps failing (the adjacent directory cannot be resolved or holds no
  executable, the search path holds none, and the environment variable is empty or its
  directory holds none), \<open>GenerateImage\<close> returns no image bytes and the error
  "BinaryPath not set", spawns nothing and leaves the cache empty; the error that
  \<open>findPath\<close> reported ("wkhtmltoimage not found", or the error of resolving the
  adjacent directory) is not the one returned.
\<close>

theorem GenerateImage_not_found:
  assumes "Input options \<noteq> ''''" and "BinaryPath options = ''''"
    and "binImagePath w = ''''"
    and "case absExeDir sys of Inl e \<Rightarrow> True | Inr d \<Rightarrow> \<not> found (lookPath sys (joinPath sys d exe))"
    and "\<not> found (lookPath sys exe)"
    and "getenv sys ''WKHTMLTOIMAGE_PATH'' = '''' \<or>
         \<not> found (lookPath sys (joinPath sys (getenv sys ''WKHTMLTOIMAGE_PATH'') exe))"
  shows "fst (GenerateImage sys w options) = Inr ([], Some ''BinaryPath not set'')
       \<and> spawned (trace (snd (snd (GenerateImage sys w options)))) = spawned (trace w)
       \<and> binImagePath (snd (snd (GenerateImage sys w options))) = ''''
       \<and> fst (findPath sys w) =
           (case absExeDir sys of Inl e \<Rightarrow> Some e | Inr d \<Rightarrow> Some ''wkhtmltoimage not found'')"
proof -
  note fp = findPath_all_fail [OF assms(3-6)]
  have g: "GenerateImage sys w options =
      (Inr ([], Some ''BinaryPath not set''), snd (buildParams options),
       note_event CacheGet (snd (findPath sys w)))"
    using assms(1,2) fp(1) by (simp add: GenerateImage_valid)
  have "spawned (trace (note_event CacheGet (snd (findPath sys w)))) = spawned (trace w)"
    using findPath_spawned [of sys w] by (simp add: note_event_def spawned_append) (simp add: spawned_def)
  then show ?thesis
    using fp by (simp add: g note_event_def)
qed

theorem GenerateImage_not_found_witness:
  "Input unpathed_options \<noteq> '''' \<and> BinaryPath unpathed_options = '''' \<and> binImagePath fresh = '''' \<and>
   fst (GenerateImage bare_sys fresh unpathed_options) = Inr ([], Some ''BinaryPath not set'') \<and>
   spawned (trace (snd (snd (GenerateImage bare_sys fresh unpathed_options)))) = []"
proof -
  have i: "Input unpathed_options \<noteq> ''''" and b: "BinaryPath unpathed_options = ''''"
    by (simp_all add: unpathed_options_def)
  have c: "binImagePath fresh = ''''"
    by (simp add: fresh_def)
  have s1: "case absExeDir bare_sys of Inl e \<Rightarrow> True
            | Inr d \<Rightarrow> \<not> found (lookPath bare_sys (joinPath bare_sys d exe))"
    by (simp add: bare_sys_def demo_sys_def found_def)
  have s2: "\<not> found (lookPath bare_sys exe)"
    by (simp add: bare_sys_def demo_sys_def found_def)
  have s3: "getenv bare_sys ''WKHTMLTOIMAGE_PATH'' = '''' \<or>
         \<not> found (lookPath bare_sys (joinPath bare_sys (getenv bare_sys ''WKHTMLTOIMAGE_PATH'') exe))"
    by (simp add: bare_sys_def demo_sys_def)
  have f: "spawned (trace fresh) = []"
    by (simp add: fresh_def spawned_def)
  from GenerateImage_not_found [OF i b c s1 s2 s3] i b c f show ?thesis
    by simp
qed

text \<open>
  C4. With an input that is neither empty nor the stdin sentinel "-", the translator
  clears the HTML text, the options that \<open>GenerateImage\<close> leaves behind hold no HTML,
  and the call pipes no HTML to a process: the texts piped according to the trace are
  those piped before the call.
\<close>

theorem no_html_piped:
  assumes "Input options \<noteq> ''''" and "Input options \<noteq> ''-''"
  shows "Html (snd (buildParams options)) = ''''
       \<and> Html (fst (snd (GenerateImage sys w options))) = ''''
       \<and> piped (trace (snd (snd (GenerateImage sys w options)))) = piped (trace w)"
proof -
  have h: "Html (snd (buildParams options)) = ''''"
    using assms by (simp add: buildParams_options)
  have c: "piped (trace (note_event CacheGet (snd (findPath sys w)))) = piped (trace w)"
    using findPath_piped [of sys w] by (simp add: note_event_def piped_append) (simp add: piped_def)
  have "Html (fst (snd (GenerateImage sys w options))) = ''''"
    using h by (simp add: GenerateImage_valid [OF assms(1)] runCommand_options)
  moreover have "piped (trace (snd (snd (GenerateImage sys w options)))) = piped (trace w)"
    using h c by (simp add: GenerateImage_valid [OF assms(1)] runCommand_piped findPath_piped)
  ultimately show ?thesis using h by simp
qed

theorem no_html_piped_witness:
  "Input page_options \<noteq> '''' \<and> Input page_options \<noteq> ''-'' \<and> Html page_options = ''<p>hi</p>'' \<and>
   Html (fst (snd (GenerateImage demo_sys fresh page_options))) = '''' \<and>
   piped (trace (snd (snd (GenerateImage demo_sys fresh page_options)))) = []"
proof -
  have i: "Input page_options \<noteq> ''''" and d: "Input page_options \<noteq> ''-''"
    and h: "Html page_options = ''<p>hi</p>''"
    by (simp_all add: page_options_def)
  have f: "piped (trace fresh) = []"
    by (simp add: fresh_def piped_def)
  from no_html_piped [OF i d, of demo_sys fresh] i d h f show ?thesis
    by simp
qed

text \<open>
  C5. With the Format field empty, \<open>cleanupOutput\<close> returns the captured bytes as they
  are, as it does for every format other than "png" and "jpg"; yet for a non-empty input
  the translator has passed "png" after "--format" and left the Format field empty, so
  \<open>GenerateImage\<close> with an explicit binary path returns exactly what the process wrote,
  with its error.
\<close>

theorem unset_format_passthrough:
  assumes "Format options = ''''"
  shows "cleanupOutput png jpeg img (Format options) = Inr img
       \<and> (Input options \<noteq> '''' \<longrightarrow>
            take 4 (fst (fst (buildParams options))) = [''-q'', ''--disable-plugins'', ''--format'', ''png'']
          \<and> Format (snd (buildParams options)) = ''''
          \<and> (BinaryPath options \<noteq> '''' \<longrightarrow>
               fst (GenerateImage sys w options) =
                 Inr (combinedOutput sys (BinaryPath options) (fst (fst (buildParams options)))
                        (if Html (snd (buildParams options)) \<noteq> ''''
                         then Some (Html (snd (buildParams options))) else None))))
       \<and> (\<forall>format. format \<noteq> ''png'' \<and> format \<noteq> ''jpg'' \<longrightarrow>
            cleanupOutput png jpeg img format = Inr img)"
proof -
  have a: "cleanupOutput png jpeg img (Format options) = Inr img"
    using assms by (simp add: cleanupOutput_other)
  have f: "Format (snd (buildParams options)) = ''''"
    using assms by (simp add: buildParams_options)
  have b: "take 4 (fst (fst (buildParams options))) = [''-q'', ''--disable-plugins'', ''--format'', ''png'']"
    if "Input options \<noteq> ''''"
    using buildParams_shape [OF that] assms by simp
  have c: "fst (GenerateImage sys w options) =
                 Inr (combinedOutput sys (BinaryPath options) (fst (fst (buildParams options)))
                        (if Html (snd (buildParams options)) \<noteq> ''''
                         then Some (Html (snd (buildParams options))) else None))"
    if "Input options \<noteq> ''''" and "BinaryPath options \<noteq> ''''"
    using that f by (simp add: GenerateImage_explicit runCommand_unset_format buildParams_BinaryPath)
  show ?thesis
    using a f b c by (simp add: cleanupOutput_other)
qed

theorem unset_format_passthrough_witness:
  "Format page_options = '''' \<and> Input page_options \<noteq> '''' \<and> BinaryPath page_options \<noteq> '''' \<and>
   take 4 (fst (fst (buildParams page_options))) = [''-q'', ''--disable-plugins'', ''--format'', ''png''] \<and>
   fst (GenerateImage demo_sys fresh page_options) = Inr ([0x57, 0x0A, 0x89, 0x50, 0x01, 0x02], None)"
proof -
  have f: "Format page_options = ''''" and i: "Input page_options \<noteq> ''''"
    and b: "BinaryPath page_options \<noteq> ''''"
    by (simp_all add: page_options_def)
  have o: "combinedOutput demo_sys = (\<lambda>p a i. ([0x57, 0x0A, 0x89, 0x50, 0x01, 0x02], None))"
    by (simp add: demo_sys_def)
  from unset_format_passthrough [OF f, of "sig_codec []" "sig_codec []" "[]" demo_sys fresh] f i b
  show ?thesis
    by (simp add: o)
qed

section \<open>The page-list adapter\<close>

text \<open>
  C10. When the JSON document decodes and its page list is empty, \<open>ImageFromJSON\<close>
  returns no bytes and no error, and does nothing else: the cache and the trace are as
  before the call.
\<close>

theorem ImageFromJSON_no_pages:
  assumes "jsonDecode sys jsonReader = Inr jp" and "Pages jp = []"
  shows "ImageFromJSON sys w jsonReader = (Inr ([], None), w)"
  using assms by (simp add: ImageFromJSON_def)

theorem ImageFromJSON_no_pages_witness:
  "jsonDecode demo_sys [0x7B, 0x7D] = Inr \<lparr>Pages = []\<rparr> \<and>
   ImageFromJSON demo_sys fresh [0x7B, 0x7D] = (Inr ([], None), fresh)"
proof -
  have d: "jsonDecode demo_sys [0x7B, 0x7D] = Inr \<lparr>Pages = []\<rparr>"
    by (simp add: demo_sys_def)
  have e: "Pages \<lparr>Pages = []\<rparr> = []"
    by simp
  from ImageFromJSON_no_pages [OF d e, of fresh] d show ?thesis
    by simp
qed

end
